theory Spec2Isabelle
  imports Complex_Main
begin

section \<open>Values, frames and storage\<close>

text \<open>
  The program (\<^verbatim>\<open>crm_logic.py\<close>, class \<^verbatim>\<open>CRMAgent\<close>) keeps customer records in a
  pandas DataFrame that is read from and written to a \<^verbatim>\<open>;\<close>-delimited file.

  A cell holds a Python object. Three of them count as missing for pandas
  (\<^verbatim>\<open>isna\<close>): \<^verbatim>\<open>None\<close>, the float \<^verbatim>\<open>nan\<close> and the nullable-array marker \<^verbatim>\<open>pd.NA\<close>;
  they differ in truth value and in comparisons, so they are kept apart.
  A finite float64 is identified with the real number it denotes; infinities and the
  rounding of float arithmetic are outside the model.
\<close>

datatype pyval = NoneV | NaN | NA | IntV int | FloatV real | StrV string | BoolV bool

datatype dtype = Int64 | NpInt64 | Float64 | Bool | Object

datatype pyexn = KeyError | TypeError | ValueError | AttributeError | OSError | ReError
  | EmptyDataError | ParserError

type_synonym row = "string \<Rightarrow> pyval"

text \<open>
  A frame is its list of columns (name and dtype, in order) and its rows. A row is
  read by column name; only the names listed in \<open>cols\<close> belong to the frame. Column
  names are pairwise distinct, as in every frame that \<^verbatim>\<open>read_csv\<close> returns.
\<close>

record frame =
  cols :: "(string \<times> dtype) list"
  rows :: "row list"

definition columns :: "frame \<Rightarrow> string list" where
  "columns df = map fst (cols df)"

definition column :: "frame \<Rightarrow> string \<Rightarrow> pyval list" where
  "column df c = map (\<lambda>r. r c) (rows df)"

definition dtype_of :: "frame \<Rightarrow> string \<Rightarrow> dtype option" where
  "dtype_of df c = map_of (cols df) c"

definition empty :: "frame \<Rightarrow> bool" where
  \<comment> \<open>\<^verbatim>\<open>DataFrame.empty\<close>: some axis has length 0\<close>
  "empty df = (rows df = [] \<or> cols df = [])"

fun isna :: "pyval \<Rightarrow> bool" where
  "isna NoneV = True"
| "isna NaN = True"
| "isna NA = True"
| "isna _ = False"

text \<open>
  What the code takes from pandas, NumPy and \<^verbatim>\<open>re\<close> without fixing it is a parameter
  of the model: the text of a float, the cast of a string element to a number, the
  dtype that two dtypes combine to, the dtype of a column after an assignment, regular
  expressions beyond literals and \<^verbatim>\<open>.\<close>, and what the CSV reader makes of a field that
  is not a plain decimal integer.
\<close>

datatype token = TNa | TInt int | TFloat real | TBool bool | TText

record pandas =
  float_str :: "real \<Rightarrow> string"
  int_of_str :: "string \<Rightarrow> int option"
  float_of_str :: "string \<Rightarrow> real option"
  common_type :: "dtype \<Rightarrow> dtype \<Rightarrow> dtype"
  setitem_type :: "dtype \<Rightarrow> pyval \<Rightarrow> pyexn + dtype"
  re_other :: "string \<Rightarrow> (string \<Rightarrow> bool) option"
  csv_other :: "string \<Rightarrow> token"

subsection \<open>Integers as text\<close>

definition digit_char :: "nat \<Rightarrow> char" where
  "digit_char d = char_of (48 + d)"

fun str_nat :: "nat \<Rightarrow> string" where
  "str_nat n = (if n < 10 then [digit_char n] else str_nat (n div 10) @ [digit_char (n mod 10)])"

declare str_nat.simps [simp del]

definition str_int :: "int \<Rightarrow> string" where
  \<comment> \<open>Python's \<^verbatim>\<open>str\<close> of an integer\<close>
  "str_int i = (if i < 0 then CHR ''-'' # str_nat (nat (- i)) else str_nat (nat i))"

definition is_digit :: "char \<Rightarrow> bool" where
  "is_digit c = ((48::nat) \<le> of_char c \<and> (of_char c :: nat) \<le> 57)"

definition nat_of_digits :: "string \<Rightarrow> nat" where
  "nat_of_digits s = foldl (\<lambda>n c. 10 * n + ((of_char c :: nat) - 48)) 0 s"

definition int_text :: "string \<Rightarrow> bool" where
  "int_text s = (case s of [] \<Rightarrow> False
     | c # cs \<Rightarrow> if c = CHR ''-'' then cs \<noteq> [] \<and> list_all is_digit cs else list_all is_digit s)"

definition int_of_text :: "string \<Rightarrow> int" where
  "int_of_text s = (case s of [] \<Rightarrow> 0
     | c # cs \<Rightarrow> if c = CHR ''-'' then - int (nat_of_digits cs) else int (nat_of_digits s))"

definition in_int64 :: "int \<Rightarrow> bool" where
  "in_int64 i = (- (2 ^ 63) \<le> i \<and> i < 2 ^ 63)"

definition wrap64 :: "int \<Rightarrow> int" where
  \<comment> \<open>the value of a 64-bit two's complement result\<close>
  "wrap64 i = (i + 2 ^ 63) mod 2 ^ 64 - 2 ^ 63"

subsection \<open>The file as the reader sees it\<close>

text \<open>
  A stored file is described by what \<^verbatim>\<open>pd.read_csv(path, delimiter=';')\<close> does on
  it: it raises, or it returns a frame. \<open>to_csv\<close> is the file written by
  \<^verbatim>\<open>df.to_csv(path, index=False, sep=';')\<close>, described the same way: each cell is
  written as text, and the reader infers each column's dtype from its fields.
\<close>

datatype content = Unreadable pyexn | Csv frame

definition cell_text :: "pandas \<Rightarrow> pyval \<Rightarrow> string" where
  "cell_text L v = (case v of
       IntV i \<Rightarrow> str_int i
     | FloatV x \<Rightarrow> float_str L x
     | StrV s \<Rightarrow> s
     | BoolV b \<Rightarrow> (if b then ''True'' else ''False'')
     | _ \<Rightarrow> [])"

definition csv_token :: "pandas \<Rightarrow> string \<Rightarrow> token" where
  "csv_token L s =
     (if s = [] then TNa
      else if int_text s \<and> in_int64 (int_of_text s) then TInt (int_of_text s)
      else csv_other L s)"

fun is_TInt :: "token \<Rightarrow> bool" where
  "is_TInt (TInt _) = True"
| "is_TInt _ = False"

fun is_TNum :: "token \<Rightarrow> bool" where
  "is_TNum (TInt _) = True"
| "is_TNum (TFloat _) = True"
| "is_TNum _ = False"

fun is_TBool :: "token \<Rightarrow> bool" where
  "is_TBool (TBool _) = True"
| "is_TBool _ = False"

datatype colkind = KEmpty | KAllNa | KInt | KFloat | KBool | KBoolNa | KText

definition infer_kind :: "token list \<Rightarrow> colkind" where
  "infer_kind ts =
     (let vs = filter (\<lambda>t. t \<noteq> TNa) ts in
      if ts = [] then KEmpty
      else if vs = [] then KAllNa
      else if list_all is_TInt vs then (if TNa \<in> set ts then KFloat else KInt)
      else if list_all is_TNum vs then KFloat
      else if list_all is_TBool vs then (if TNa \<in> set ts then KBoolNa else KBool)
      else KText)"

fun kind_dtype :: "colkind \<Rightarrow> dtype" where
  "kind_dtype KEmpty = Object"
| "kind_dtype KAllNa = Float64"
| "kind_dtype KInt = NpInt64"
| "kind_dtype KFloat = Float64"
| "kind_dtype KBool = Bool"
| "kind_dtype KBoolNa = Object"
| "kind_dtype KText = Object"

definition read_cell :: "colkind \<Rightarrow> token \<Rightarrow> string \<Rightarrow> pyval" where
  "read_cell k t s = (case (k, t) of
       (KInt, TInt i) \<Rightarrow> IntV i
     | (KFloat, TInt i) \<Rightarrow> FloatV (of_int i)
     | (KFloat, TFloat x) \<Rightarrow> FloatV x
     | (KBool, TBool b) \<Rightarrow> BoolV b
     | (KBoolNa, TBool b) \<Rightarrow> BoolV b
     | (KText, TNa) \<Rightarrow> NaN
     | (KText, _) \<Rightarrow> StrV s
     | _ \<Rightarrow> NaN)"

definition col_kind :: "pandas \<Rightarrow> frame \<Rightarrow> string \<Rightarrow> colkind" where
  "col_kind L df c = infer_kind (map (\<lambda>v. csv_token L (cell_text L v)) (column df c))"

definition read_back :: "pandas \<Rightarrow> frame \<Rightarrow> frame" where
  \<comment> \<open>the frame that \<^verbatim>\<open>read_csv\<close> returns on the file written from \<open>df\<close>\<close>
  "read_back L df =
     \<lparr> cols = map (\<lambda>c. (c, kind_dtype (col_kind L df c))) (columns df),
       rows = map (\<lambda>r c. if c \<in> set (columns df)
                           then read_cell (col_kind L df c)
                                  (csv_token L (cell_text L (r c))) (cell_text L (r c))
                           else NaN) (rows df) \<rparr>"

definition to_csv :: "pandas \<Rightarrow> frame \<Rightarrow> content" where
  "to_csv L df = (if cols df = [] then Unreadable EmptyDataError else Csv (read_back L df))"

record world =
  files :: "string \<rightharpoonup> content"
  writable :: "string \<Rightarrow> bool"

definition save_data :: "pandas \<Rightarrow> frame \<Rightarrow> string \<Rightarrow> world \<Rightarrow> pyexn + world" where
  \<comment> \<open>the write fails (and the error is raised again) or replaces the file\<close>
  "save_data L df file_path w =
     (if writable w file_path
      then Inr (w\<lparr>files := (files w)(file_path \<mapsto> to_csv L df)\<rparr>)
      else Inl OSError)"

section \<open>Adding a customer\<close>

datatype reply = Reply string | Failure string pyexn

text \<open>
  \<open>Failure p e\<close> is the string \<open>p\<close> followed by Python's text of the exception \<open>e\<close>.
\<close>

fun truthy :: "pyval \<Rightarrow> pyexn + bool" where
  "truthy NoneV = Inr False"
| "truthy NaN = Inr True"
| "truthy NA = Inl TypeError"
| "truthy (IntV i) = Inr (i \<noteq> 0)"
| "truthy (FloatV x) = Inr (x \<noteq> 0)"
| "truthy (StrV s) = Inr (s \<noteq> [])"
| "truthy (BoolV b) = Inr b"

type_synonym pydict = "(string \<times> pyval) list"

definition required_fields :: "string list" where
  "required_fields = [''First Name'', ''Last Name'', ''Email'', ''Phone'', ''Status'', ''Amount'']"

fun first_missing :: "pydict \<Rightarrow> string list \<Rightarrow> pyexn + string option" where
  "first_missing d [] = Inr None"
| "first_missing d (field # rest) =
     (case map_of d field of
        None \<Rightarrow> Inr (Some field)
      | Some v \<Rightarrow> (case truthy v of
                     Inl e \<Rightarrow> Inl e
                   | Inr b \<Rightarrow> if \<not> b then Inr (Some field) else first_missing d rest))"

fun is_num :: "pyval \<Rightarrow> bool" where
  "is_num (IntV _) = True"
| "is_num (FloatV _) = True"
| "is_num (BoolV _) = True"
| "is_num _ = False"

fun num :: "pyval \<Rightarrow> real" where
  "num (IntV i) = of_int i"
| "num (FloatV x) = x"
| "num (BoolV b) = (if b then 1 else 0)"
| "num _ = 0"

fun list_max :: "real list \<Rightarrow> real" where
  "list_max [] = 0"
| "list_max [x] = x"
| "list_max (x # y # ys) = max x (list_max (y # ys))"

definition trunc :: "real \<Rightarrow> int" where
  \<comment> \<open>Python's \<^verbatim>\<open>int\<close> of a float\<close>
  "trunc x = (if 0 \<le> x then \<lfloor>x\<rfloor> else \<lceil>x\<rceil>)"

definition next_id :: "frame \<Rightarrow> pyexn + int" where
  "next_id data =
     (if \<not> empty data \<and> ''Customer ID'' \<in> set (columns data)
      then (let vs = filter (\<lambda>v. \<not> isna v) (column data ''Customer ID'') in
            if vs = [] then
              (if dtype_of data ''Customer ID'' = Some Int64 then Inl TypeError else Inl ValueError)
            else if list_all is_num vs then
              (if dtype_of data ''Customer ID'' \<in> {Some Int64, Some NpInt64}
               then Inr (wrap64 (trunc (list_max (map num vs)) + 1))
               else Inr (trunc (list_max (map num vs) + 1)))
            else Inl TypeError)
      else Inr 1)"

fun dict_set :: "pydict \<Rightarrow> string \<Rightarrow> pyval \<Rightarrow> pydict" where
  "dict_set [] k v = [(k, v)]"
| "dict_set ((k', v') # d) k v = (if k' = k then (k, v) # d else (k', v') # dict_set d k v)"

fun infer_dtype :: "pyval \<Rightarrow> dtype" where
  "infer_dtype (IntV _) = NpInt64"
| "infer_dtype (FloatV _) = Float64"
| "infer_dtype NaN = Float64"
| "infer_dtype (BoolV _) = Bool"
| "infer_dtype _ = Object"

definition DataFrame1 :: "pydict \<Rightarrow> frame" where
  \<comment> \<open>\<^verbatim>\<open>pd.DataFrame([d])\<close>: one row, the keys as columns\<close>
  "DataFrame1 d = \<lparr> cols = map (\<lambda>(k, v). (k, infer_dtype v)) d,
                    rows = [\<lambda>c. case map_of d c of Some v \<Rightarrow> v | None \<Rightarrow> NaN] \<rparr>"

fun with_missing :: "dtype \<Rightarrow> dtype" where
  "with_missing NpInt64 = Float64"
| "with_missing Bool = Object"
| "with_missing d = d"

fun as_dtype :: "dtype \<Rightarrow> pyval \<Rightarrow> pyval" where
  "as_dtype Float64 (IntV i) = FloatV (of_int i)"
| "as_dtype Float64 (BoolV b) = FloatV (if b then 1 else 0)"
| "as_dtype Float64 NoneV = NaN"
| "as_dtype Float64 NA = NaN"
| "as_dtype Int64 NaN = NA"
| "as_dtype Int64 NoneV = NA"
| "as_dtype Int64 (BoolV b) = IntV (if b then 1 else 0)"
| "as_dtype Int64 (FloatV x) = (if x = of_int \<lfloor>x\<rfloor> then IntV \<lfloor>x\<rfloor> else FloatV x)"
| "as_dtype NpInt64 (BoolV b) = IntV (if b then 1 else 0)"
| "as_dtype d v = v"

definition concat_dtype :: "pandas \<Rightarrow> frame \<Rightarrow> frame \<Rightarrow> string \<Rightarrow> dtype" where
  "concat_dtype L a b c =
     (case (dtype_of a c, dtype_of b c) of
        (Some d, Some e) \<Rightarrow>
          if d = e then d
          else if {d, e} = {Int64, NpInt64} then Int64
          else common_type L d e
      | (Some d, None) \<Rightarrow> with_missing d
      | (None, Some e) \<Rightarrow> with_missing e
      | (None, None) \<Rightarrow> Object)"

definition concat_row :: "pandas \<Rightarrow> frame \<Rightarrow> frame \<Rightarrow> frame \<Rightarrow> row \<Rightarrow> row" where
  "concat_row L a b src r =
     (\<lambda>c. as_dtype (concat_dtype L a b c) (if c \<in> set (columns src) then r c else NaN))"

definition concat :: "pandas \<Rightarrow> frame \<Rightarrow> frame \<Rightarrow> frame" where
  \<comment> \<open>\<^verbatim>\<open>pd.concat([a, b], ignore_index=True)\<close>: the union of the columns, the rows of
      \<open>a\<close> then those of \<open>b\<close>, a missing value where a frame lacks a column\<close>
  "concat L a b =
     \<lparr> cols = map (\<lambda>c. (c, concat_dtype L a b c))
                  (columns a @ filter (\<lambda>c. c \<notin> set (columns a)) (columns b)),
       rows = map (concat_row L a b a) (rows a) @ map (concat_row L a b b) (rows b) \<rparr>"

definition add_customer ::
  "pandas \<Rightarrow> frame \<Rightarrow> pydict \<Rightarrow> string \<Rightarrow> world \<Rightarrow> reply \<times> world" where
  "add_customer L data customer_details file_path w =
     (case first_missing customer_details required_fields of
        Inl e \<Rightarrow> (Failure ''Error adding customer: '' e, w)
      | Inr (Some field) \<Rightarrow> (Reply (''Error: '' @ field @ '' is required''), w)
      | Inr None \<Rightarrow>
          (case next_id data of
             Inl e \<Rightarrow> (Failure ''Error adding customer: '' e, w)
           | Inr new_id \<Rightarrow>
               (let new_record = DataFrame1 (dict_set customer_details ''Customer ID'' (IntV new_id));
                    updated_data = concat L data new_record
                in case save_data L updated_data file_path w of
                     Inl e \<Rightarrow> (Failure ''Error adding customer: '' e, w)
                   | Inr w' \<Rightarrow>
                       (Reply (''Customer added successfully with ID '' @ str_int new_id), w'))))"

section \<open>Loading\<close>

definition required_columns :: "(string \<times> dtype) list" where
  "required_columns =
     [(''Customer ID'', Int64), (''First Name'', Object), (''Last Name'', Object),
      (''Email'', Object), (''Phone'', Object), (''Status'', Object), (''Amount'', Float64)]"

definition empty_frame :: frame where
  \<comment> \<open>\<^verbatim>\<open>pd.DataFrame(columns=list(required_columns.keys()))\<close>: no rows, every column of
      dtype object\<close>
  "empty_frame = \<lparr> cols = map (\<lambda>(c, d). (c, Object)) required_columns, rows = [] \<rparr>"

fun starts_with :: "string \<Rightarrow> string \<Rightarrow> bool" where
  "starts_with [] s = True"
| "starts_with (p # ps) [] = False"
| "starts_with (p # ps) (c # cs) = (p = c \<and> starts_with ps cs)"

fun contains :: "string \<Rightarrow> string \<Rightarrow> bool" where
  \<comment> \<open>Python's \<^verbatim>\<open>p in s\<close> on strings\<close>
  "contains p [] = (p = [])"
| "contains p (c # cs) = (starts_with p (c # cs) \<or> contains p cs)"

definition drop_columns :: "(string \<Rightarrow> bool) \<Rightarrow> frame \<Rightarrow> frame" where
  "drop_columns P df = df\<lparr>cols := filter (\<lambda>(c, d). \<not> P c) (cols df)\<rparr>"

definition set_column :: "string \<Rightarrow> dtype \<Rightarrow> pyval list \<Rightarrow> frame \<Rightarrow> frame" where
  \<comment> \<open>\<^verbatim>\<open>df[c] = series\<close>: an existing column keeps its place, a new one goes last\<close>
  "set_column c d vs df =
     \<lparr> cols = (if c \<in> set (columns df)
               then map (\<lambda>(n, t). if n = c then (c, d) else (n, t)) (cols df)
               else cols df @ [(c, d)]),
       rows = map (\<lambda>(r, v). r(c := v)) (zip (rows df) vs) \<rparr>"

fun is_intfloat :: "pyval \<Rightarrow> bool" where
  "is_intfloat (IntV _) = True"
| "is_intfloat (FloatV _) = True"
| "is_intfloat _ = False"

fun is_boolv :: "pyval \<Rightarrow> bool" where
  "is_boolv (BoolV _) = True"
| "is_boolv _ = False"

definition str_accessor_ok :: "dtype \<Rightarrow> pyval list \<Rightarrow> bool" where
  \<comment> \<open>\<^verbatim>\<open>Series.str\<close> raises AttributeError unless the column has dtype object and its
      values are not all numbers or all booleans\<close>
  "str_accessor_ok d vs =
     (d = Object \<and>
      (let xs = filter (\<lambda>v. \<not> isna v) vs
       in xs = [] \<or> \<not> (list_all is_intfloat xs \<or> list_all is_boolv xs)))"

definition space :: char where
  "space = CHR 0x20"

fun first_part :: "pyval \<Rightarrow> pyval" where
  \<comment> \<open>\<^verbatim>\<open>.str.split(' ', n=1).str[0]\<close>\<close>
  "first_part (StrV s) = StrV (takeWhile (\<lambda>c. c \<noteq> space) s)"
| "first_part v = NaN"

fun last_part :: "pyval \<Rightarrow> pyval" where
  \<comment> \<open>\<^verbatim>\<open>.str.split(' ', n=1).str[1].fillna('')\<close>\<close>
  "last_part (StrV s) = StrV (drop 1 (dropWhile (\<lambda>c. c \<noteq> space) s))"
| "last_part v = StrV []"

definition split_name :: "frame \<Rightarrow> pyexn + frame" where
  "split_name data =
     (if ''Name'' \<in> set (columns data) then
        (if ''First Name'' \<notin> set (columns data) \<or> ''Last Name'' \<notin> set (columns data) then
           (case dtype_of data ''Name'' of
              None \<Rightarrow> Inl KeyError
            | Some d \<Rightarrow>
                if str_accessor_ok d (column data ''Name'') then
                  Inr (drop_columns (\<lambda>c. c = ''Name'')
                        (set_column ''Last Name'' Object (map last_part (column data ''Name''))
                          (set_column ''First Name'' Object (map first_part (column data ''Name''))
                             data)))
                else Inl AttributeError)
         else Inr (drop_columns (\<lambda>c. c = ''Name'') data))
      else Inr data)"

fun cast :: "pandas \<Rightarrow> dtype \<Rightarrow> pyval \<Rightarrow> pyval option" where
  \<comment> \<open>one element under \<^verbatim>\<open>astype\<close>; \<open>None\<close>: the cast raises\<close>
  "cast L Object v = Some v"
| "cast L Int64 (IntV i) = (if in_int64 i then Some (IntV i) else None)"
| "cast L Int64 (FloatV x) =
     (if x = of_int \<lfloor>x\<rfloor> \<and> in_int64 \<lfloor>x\<rfloor> then Some (IntV \<lfloor>x\<rfloor>) else None)"
| "cast L Int64 (BoolV b) = Some (IntV (if b then 1 else 0))"
| "cast L Int64 (StrV s) = map_option IntV (int_of_str L s)"
| "cast L Int64 v = Some NA"
| "cast L Float64 (IntV i) = Some (FloatV (of_int i))"
| "cast L Float64 (FloatV x) = Some (FloatV x)"
| "cast L Float64 (BoolV b) = Some (FloatV (if b then 1 else 0))"
| "cast L Float64 (StrV s) = map_option FloatV (float_of_str L s)"
| "cast L Float64 NA = None"
| "cast L Float64 v = Some NaN"
| "cast L d v = None"

definition missing :: "dtype \<Rightarrow> pyval" where
  "missing d = (if d = Int64 then NA else NaN)"

definition coerce :: "pandas \<Rightarrow> string \<Rightarrow> dtype \<Rightarrow> frame \<Rightarrow> frame" where
  \<comment> \<open>one round of the loop over \<^verbatim>\<open>required_columns\<close>\<close>
  "coerce L c d data =
     (if c \<notin> set (columns data)
      then set_column c d (map (\<lambda>r. missing d) (rows data)) data
      else (case those (map (cast L d) (column data c)) of
              Some vs \<Rightarrow> set_column c d vs data
            | None \<Rightarrow> set_column c d (map (\<lambda>r. missing d) (rows data)) data))"

definition dropna_all :: "frame \<Rightarrow> frame" where
  \<comment> \<open>\<^verbatim>\<open>dropna(how="all").reset_index(drop=True)\<close>\<close>
  "dropna_all df = df\<lparr>rows := filter (\<lambda>r. \<not> list_all (\<lambda>c. isna (r c)) (columns df)) (rows df)\<rparr>"

definition coerce_all :: "pandas \<Rightarrow> frame \<Rightarrow> frame" where
  \<comment> \<open>the loop \<^verbatim>\<open>for column, dtype in required_columns.items()\<close>\<close>
  "coerce_all L data = fold (\<lambda>(c, d). coerce L c d) required_columns data"

definition normalize :: "pandas \<Rightarrow> frame \<Rightarrow> frame" where
  "normalize L data = dropna_all (coerce_all L data)"

definition default_path :: "string \<Rightarrow> string" where
  "default_path file_path = (if file_path = [] then ''data.csv'' else file_path)"

definition load_data :: "pandas \<Rightarrow> string \<Rightarrow> world \<Rightarrow> frame" where
  "load_data L file_path w =
     (case files w (default_path file_path) of
        None \<Rightarrow> normalize L empty_frame
      | Some (Unreadable e) \<Rightarrow> empty_frame
      | Some (Csv df) \<Rightarrow>
          (case split_name (drop_columns (contains ''Unnamed:'') df) of
             Inl e \<Rightarrow> empty_frame
           | Inr data \<Rightarrow> normalize L data))"

section \<open>Updating, deleting, searching\<close>

fun eq_id :: "pyval \<Rightarrow> int \<Rightarrow> bool option" where
  \<comment> \<open>one element of \<^verbatim>\<open>data['Customer ID'] == customer_id\<close>; \<open>None\<close> is \<^verbatim>\<open>pd.NA\<close>\<close>
  "eq_id NA k = None"
| "eq_id (IntV i) k = Some (i = k)"
| "eq_id (FloatV x) k = Some (x = of_int k)"
| "eq_id (BoolV b) k = Some ((if b then 1 else 0) = k)"
| "eq_id v k = Some False"

fun py_any :: "bool option list \<Rightarrow> pyexn + bool" where
  \<comment> \<open>Python's \<^verbatim>\<open>any\<close>: stops at the first true element, and the truth value of
      \<^verbatim>\<open>pd.NA\<close> raises\<close>
  "py_any [] = Inr False"
| "py_any (None # m) = Inl TypeError"
| "py_any (Some b # m) = (if b then Inr True else py_any m)"

definition loc_set ::
  "pandas \<Rightarrow> bool list \<Rightarrow> string \<Rightarrow> pyval \<Rightarrow> frame \<Rightarrow> pyexn + frame" where
  \<comment> \<open>\<^verbatim>\<open>data.loc[customer_mask, key] = value\<close>: when the assignment changes the dtype of
      the column, its other values are represented in the new dtype\<close>
  "loc_set L hits key v data =
     (case dtype_of data key of
        None \<Rightarrow> Inl KeyError
      | Some d \<Rightarrow>
          (case setitem_type L d v of
             Inl e \<Rightarrow> Inl e
           | Inr d' \<Rightarrow>
               Inr \<lparr> cols = map (\<lambda>(n, t). if n = key then (n, d') else (n, t)) (cols data),
                     rows = map (\<lambda>(r, hit). if hit then r(key := as_dtype d' v)
                                             else if d' = d then r
                                             else r(key := as_dtype d' (r key)))
                                (zip (rows data) hits) \<rparr>))"

fun apply_updates :: "pandas \<Rightarrow> bool list \<Rightarrow> pydict \<Rightarrow> frame \<Rightarrow> pyexn option \<times> frame" where
  \<comment> \<open>the loop over \<^verbatim>\<open>updates.items()\<close>; the frame is changed in place, so an
      exception leaves the changes made before it\<close>
  "apply_updates L hits [] data = (None, data)"
| "apply_updates L hits ((key, v) # us) data =
     (if key \<in> set (columns data) then
        (case loc_set L hits key v data of
           Inl e \<Rightarrow> (Some e, data)
         | Inr data' \<Rightarrow> apply_updates L hits us data')
      else apply_updates L hits us data)"

definition customer_mask :: "frame \<Rightarrow> int \<Rightarrow> bool option list" where
  \<comment> \<open>\<^verbatim>\<open>data['Customer ID'] == customer_id\<close>\<close>
  "customer_mask data customer_id = map (\<lambda>v. eq_id v customer_id) (column data ''Customer ID'')"

definition update_customer ::
  "pandas \<Rightarrow> frame \<Rightarrow> int \<Rightarrow> pydict \<Rightarrow> string \<Rightarrow> world \<Rightarrow> reply \<times> frame \<times> world" where
  \<comment> \<open>the frame returned is the caller's frame after the call: it is updated in place\<close>
  "update_customer L data customer_id updates file_path w =
     (if ''Customer ID'' \<notin> set (columns data)
      then (Failure ''Error updating customer: '' KeyError, data, w)
      else (case py_any (customer_mask data customer_id) of
              Inl e \<Rightarrow> (Failure ''Error updating customer: '' e, data, w)
            | Inr False \<Rightarrow> (Reply (''No customer found with ID '' @ str_int customer_id), data, w)
            | Inr True \<Rightarrow>
                (case apply_updates L (map (\<lambda>b. b = Some True) (customer_mask data customer_id))
                        updates data of
                   (Some e, data') \<Rightarrow> (Failure ''Error updating customer: '' e, data', w)
                 | (None, data') \<Rightarrow>
                     (case save_data L data' file_path w of
                        Inl e \<Rightarrow> (Failure ''Error updating customer: '' e, data', w)
                      | Inr w' \<Rightarrow>
                          (Reply (''Customer with ID '' @ str_int customer_id
                                    @ '' updated successfully''), data', w')))))"

definition delete_customer :: "pandas \<Rightarrow> frame \<Rightarrow> int \<Rightarrow> string \<Rightarrow> world \<Rightarrow> reply \<times> world" where
  "delete_customer L data customer_id file_path w =
     (if ''Customer ID'' \<notin> set (columns data)
      then (Failure ''Error deleting customer: '' KeyError, w)
      else if \<not> list_ex (\<lambda>v. eq_id v customer_id = Some True) (column data ''Customer ID'')
      then (Reply (''No customer found with ID '' @ str_int customer_id), w)
      else (let updated_data =
                  data\<lparr>rows := filter (\<lambda>r. eq_id (r ''Customer ID'') customer_id = Some False)
                                       (rows data)\<rparr>
            in case save_data L updated_data file_path w of
                 Inl e \<Rightarrow> (Failure ''Error deleting customer: '' e, w)
               | Inr w' \<Rightarrow>
                   (Reply (''Customer with ID '' @ str_int customer_id
                             @ '' deleted successfully''), w')))"










section \<open>Notions used in the statements\<close>

definition provided :: "pydict \<Rightarrow> string \<Rightarrow> bool" where
  \<comment> \<open>the field is present and its value is non-empty and non-null\<close>
  "provided d f = (case map_of d f of Some v \<Rightarrow> truthy v = Inr True | None \<Rightarrow> False)"

definition absent_or_empty :: "pydict \<Rightarrow> string \<Rightarrow> bool" where
  \<comment> \<open>the field is absent, or its value is \<^verbatim>\<open>None\<close> or the empty string\<close>
  "absent_or_empty d f = (map_of d f \<in> {None, Some NoneV, Some (StrV [])})"

definition stored :: "world \<Rightarrow> string \<Rightarrow> content option" where
  \<comment> \<open>the file that \<open>load_data\<close> reads for a path\<close>
  "stored w file_path = files w (default_path file_path)"


text \<open>
  An instance of the library parameters for the examples. It gives the text of a float
  with an integral value as Python does (\<^verbatim>\<open>10.0\<close>), reads such a text back as that
  float, casts decimal strings, and leaves every other field of a file as text.
\<close>

definition example_pandas :: pandas where
  "example_pandas =
     \<lparr> float_str = (\<lambda>x. str_int \<lfloor>x\<rfloor> @ ''.0''),
       int_of_str = (\<lambda>s. if int_text s then Some (int_of_text s) else None),
       float_of_str = (\<lambda>s. if int_text s then Some (of_int (int_of_text s)) else None),
       common_type = (\<lambda>a b. if a = b then a
                             else if a \<in> {Int64, NpInt64} \<and> b \<in> {Int64, NpInt64} then Int64
                             else Object),
       setitem_type = (\<lambda>d v. Inr d),
       re_other = (\<lambda>p. None),
       csv_other = (\<lambda>s. if 2 < length s \<and> drop (length s - 2) s = ''.0''
                              \<and> int_text (take (length s - 2) s)
                           then TFloat (of_int (int_of_text (take (length s - 2) s)))
                           else TText) \<rparr>"

definition no_files :: world where
  "no_files = \<lparr> files = Map.empty, writable = (\<lambda>p. True) \<rparr>"

definition holding :: "frame \<Rightarrow> world" where
  \<comment> \<open>a storage whose only file is \<^verbatim>\<open>data.csv\<close>, read as the given frame\<close>
  "holding df = \<lparr> files = [''data.csv'' \<mapsto> Csv df], writable = (\<lambda>p. True) \<rparr>"

definition jane :: pydict where
  "jane = [(''First Name'', StrV ''Jane''), (''Last Name'', StrV ''Doe''),
           (''Email'', StrV ''jane@example.org''), (''Phone'', StrV ''555-0100''),
           (''Status'', StrV ''Active''), (''Amount'', FloatV 0)]"






definition has_id :: "frame \<Rightarrow> int \<Rightarrow> bool" where
  "has_id data k = list_ex (\<lambda>v. eq_id v k = Some True) (column data ''Customer ID'')"

definition same_value :: "pyval \<Rightarrow> pyval \<Rightarrow> bool" where
  "same_value u v = (u = v \<or> (isna u \<and> isna v) \<or> (is_num u \<and> is_num v \<and> num u = num v))"

definition matches :: "frame \<Rightarrow> int \<Rightarrow> nat \<Rightarrow> bool" where
  "matches data k i = (eq_id ((rows data ! i) ''Customer ID'') k = Some True)"

definition two_customers :: frame where
  "two_customers =
     \<lparr> cols = required_columns,
       rows = [(\<lambda>c. NaN)(''Customer ID'' := IntV 1, ''First Name'' := StrV ''Jane'',
                          ''Last Name'' := StrV ''Doe'', ''Email'' := StrV ''jane@example.org'',
                          ''Phone'' := StrV ''555-0100'', ''Status'' := StrV ''Active'',
                          ''Amount'' := FloatV 10),
               (\<lambda>c. NaN)(''Customer ID'' := IntV 2, ''First Name'' := StrV ''John'',
                          ''Last Name'' := StrV ''Roe'', ''Email'' := StrV ''john@example.org'',
                          ''Phone'' := StrV ''555-0101'', ''Status'' := StrV ''Prospect'',
                          ''Amount'' := FloatV 25)] \<rparr>"

definition bad_ids_file :: frame where
  "bad_ids_file =
     \<lparr> cols = [(''Customer ID'', Object), (''Email'', Object)],
       rows = [(\<lambda>c. NaN)(''Customer ID'' := StrV ''A1'', ''Email'' := StrV ''jane@example.org'')] \<rparr>"

definition new_email :: pydict where
  "new_email = [(''Email'', StrV ''new@example.org''), (''Nickname'', StrV ''JD'')]"







section \<open>Validation of a new customer\<close>

lemma first_missing_provided:
  "provided d f \<Longrightarrow> first_missing d (f # fs) = first_missing d fs"
  by (auto simp: provided_def split: option.splits)

lemma first_missing_absent_or_empty:
  "absent_or_empty d f \<Longrightarrow> first_missing d (f # fs) = Inr (Some f)"
  by (auto simp: absent_or_empty_def)

lemma first_missing_falsy:
  "map_of d f = Some v \<Longrightarrow> truthy v = Inr False \<Longrightarrow> first_missing d (f # fs) = Inr (Some f)"
  by simp

text \<open>
  C3 (amended). When First Name and Last Name are present and non-empty and Email is
  absent or empty, \<open>add_customer\<close> returns the string \<^verbatim>\<open>Error: Email is required\<close> and
  leaves the storage as it was: the message names the first missing field, with the
  prefix \<^verbatim>\<open>Error: \<close> that the claim leaves out.
\<close>

theorem add_customer_email_required:
  assumes "provided d ''First Name''" and "provided d ''Last Name''"
    and "absent_or_empty d ''Email''"
  shows "add_customer L data d file_path w = (Reply ''Error: Email is required'', w)"
  using assms
  by (simp add: add_customer_def required_fields_def first_missing_provided
      first_missing_absent_or_empty del: first_missing.simps(2))

theorem add_customer_email_required_witness:
  "provided [(''First Name'', StrV ''Jane''), (''Last Name'', StrV ''Doe'')] ''First Name''
   \<and> provided [(''First Name'', StrV ''Jane''), (''Last Name'', StrV ''Doe'')] ''Last Name''
   \<and> absent_or_empty [(''First Name'', StrV ''Jane''), (''Last Name'', StrV ''Doe'')] ''Email''
   \<and> add_customer example_pandas empty_frame
        [(''First Name'', StrV ''Jane''), (''Last Name'', StrV ''Doe'')] ''data.csv'' no_files
      = (Reply ''Error: Email is required'', no_files)"
proof -
  let ?d = "[(''First Name'', StrV ''Jane''), (''Last Name'', StrV ''Doe'')]"
  have 1: "provided ?d ''First Name''" by (simp add: provided_def)
  have 2: "provided ?d ''Last Name''" by (simp add: provided_def)
  have 3: "absent_or_empty ?d ''Email''" by (simp add: absent_or_empty_def)
  show ?thesis
    using 1 2 3 add_customer_email_required [OF 1 2 3] by simp
qed

theorem add_customer_email_message_counterexample:
  "fst (add_customer example_pandas empty_frame
          [(''First Name'', StrV ''Jane''), (''Last Name'', StrV ''Doe'')] ''data.csv'' no_files)
   \<noteq> Reply ''Email is required''"
  by (simp add: add_customer_def required_fields_def)

text \<open>
  C9. When First Name, Last Name, Email, Phone and Status are present and non-empty and
  Amount is the integer 0 or the float 0.0, \<open>add_customer\<close> treats the amount as missing:
  it returns \<^verbatim>\<open>Error: Amount is required\<close> and leaves the storage as it was.
\<close>

theorem add_customer_zero_amount:
  assumes "provided d ''First Name''" and "provided d ''Last Name''"
    and "provided d ''Email''" and "provided d ''Phone''" and "provided d ''Status''"
    and "map_of d ''Amount'' = Some (IntV 0) \<or> map_of d ''Amount'' = Some (FloatV 0)"
  shows "add_customer L data d file_path w = (Reply ''Error: Amount is required'', w)"
proof -
  from assms(6) obtain v where "map_of d ''Amount'' = Some v" and "truthy v = Inr False"
    by auto
  then have "first_missing d [''Amount''] = Inr (Some ''Amount'')"
    by (rule first_missing_falsy)
  with assms(1-5) show ?thesis
    by (simp add: add_customer_def required_fields_def first_missing_provided
        del: first_missing.simps(2))
qed

theorem add_customer_zero_amount_witness:
  "provided jane ''First Name'' \<and> provided jane ''Last Name'' \<and> provided jane ''Email''
   \<and> provided jane ''Phone'' \<and> provided jane ''Status''
   \<and> map_of jane ''Amount'' = Some (FloatV 0)
   \<and> add_customer example_pandas empty_frame jane ''data.csv'' no_files
      = (Reply ''Error: Amount is required'', no_files)"
proof -
  have 1: "provided jane ''First Name''" "provided jane ''Last Name''" "provided jane ''Email''"
    "provided jane ''Phone''" "provided jane ''Status''"
    by (simp_all add: provided_def jane_def)
  have 2: "map_of jane ''Amount'' = Some (FloatV 0)" by (simp add: jane_def)
  have 3: "map_of jane ''Amount'' = Some (IntV 0) \<or> map_of jane ''Amount'' = Some (FloatV 0)"
    using 2 by simp
  show ?thesis
    using 1 2 add_customer_zero_amount [OF 1 3] by simp
qed

section \<open>Loading: columns, dtypes and the legacy name\<close>

lemma columns_drop_columns [simp]:
  "columns (drop_columns P df) = filter (\<lambda>c. \<not> P c) (columns df)"
  by (simp add: columns_def drop_columns_def filter_map comp_def case_prod_unfold)

lemma columns_set_column [simp]:
  "columns (set_column c d vs df) = (if c \<in> set (columns df) then columns df else columns df @ [c])"
  by (auto simp: columns_def set_column_def case_prod_unfold intro!: map_idI)

lemma map_of_retag_other:
  "c' \<noteq> c \<Longrightarrow> map_of (map (\<lambda>(n, t). if n = c then (c, d) else (n, t)) xs) c' = map_of xs c'"
  by (induction xs) auto

lemma map_of_retag_same:
  "c \<in> fst ` set xs \<Longrightarrow> map_of (map (\<lambda>(n, t). if n = c then (c, d) else (n, t)) xs) c = Some d"
  by (induction xs) auto

lemma map_of_append_new:
  assumes "c \<notin> fst ` set xs"
  shows "map_of (xs @ [(c, d)]) c' = (if c' = c then Some d else map_of xs c')"
proof -
  from assms have "map_of xs c = None" by (simp add: map_of_eq_None_iff)
  then show ?thesis by (cases "map_of xs c'") (auto simp: map_add_def)
qed

lemma dtype_of_set_column [simp]:
  "dtype_of (set_column c d vs df) c' = (if c' = c then Some d else dtype_of df c')"
proof (cases "c \<in> set (columns df)")
  case True
  then have "c \<in> fst ` set (cols df)" by (simp add: columns_def)
  then show ?thesis using True
    by (simp add: dtype_of_def set_column_def map_of_retag_other map_of_retag_same)
next
  case False
  then have "c \<notin> fst ` set (cols df)" by (simp add: columns_def)
  then show ?thesis using False
    by (simp add: dtype_of_def set_column_def map_of_append_new del: map_of_append)
qed

lemma columns_coerce [simp]:
  "columns (coerce L c d df) = (if c \<in> set (columns df) then columns df else columns df @ [c])"
  by (simp add: coerce_def split: option.splits)

lemma dtype_of_coerce [simp]:
  "dtype_of (coerce L c d df) c' = (if c' = c then Some d else dtype_of df c')"
  by (simp add: coerce_def split: option.splits)

lemma columns_dropna_all [simp]: "columns (dropna_all df) = columns df"
  by (simp add: dropna_all_def columns_def)

lemma dtype_of_dropna_all [simp]: "dtype_of (dropna_all df) c = dtype_of df c"
  by (simp add: dropna_all_def dtype_of_def)


lemma set_columns_normalize:
  "set (columns (normalize L df)) = set (columns df) \<union> fst ` set required_columns"
  by (auto simp: normalize_def coerce_all_def required_columns_def)


lemma length_those: "those xs = Some ys \<Longrightarrow> length ys = length xs"
  by (induction xs arbitrary: ys) (auto split: option.splits)

lemma those_map_Some [simp]: "those (map Some xs) = Some xs"
  by (induction xs) auto

lemma length_rows_set_column:
  "length vs = length (rows df) \<Longrightarrow> length (rows (set_column c d vs df)) = length (rows df)"
  by (simp add: set_column_def)


lemma map_fst_zip_app:
  "length vs = length rs \<Longrightarrow> map (\<lambda>x. f (fst x)) (zip rs vs) = map f rs"
  by (induction vs rs rule: list_induct2) auto

lemma column_set_column_other:
  "c' \<noteq> c \<Longrightarrow> length vs = length (rows df) \<Longrightarrow> column (set_column c d vs df) c' = column df c'"
  using map_fst_zip_app [of vs "rows df" "\<lambda>r. r c'"]
  by (simp add: column_def set_column_def case_prod_unfold comp_def)

lemma length_column [simp]: "length (column df c) = length (rows df)"
  by (simp add: column_def)

lemma length_rows_coerce [simp]: "length (rows (coerce L c d df)) = length (rows df)"
  by (auto simp: coerce_def length_rows_set_column dest!: length_those split: option.splits)

lemma column_coerce_other:
  "c' \<noteq> c \<Longrightarrow> column (coerce L c d df) c' = column df c'"
  by (auto simp: coerce_def column_set_column_other dest!: length_those split: option.splits)

lemma cast_Object [simp]: "cast L Object = Some"
  by (rule ext) simp



lemma column_drop_columns [simp]: "column (drop_columns P df) c = column df c"
  by (simp add: column_def drop_columns_def)

lemma rows_drop_columns [simp]: "rows (drop_columns P df) = rows df"
  by (simp add: drop_columns_def)









lemma column_coerce_all_extra:
  "c \<notin> fst ` set required_columns \<Longrightarrow> column (coerce_all L df) c = column df c"
  by (simp add: coerce_all_def required_columns_def column_coerce_other)

lemma not_isna_last_part [simp]: "\<not> isna (last_part v)"
  by (cases v) auto



lemma contains_unnamed_names [simp]:
  "\<not> contains ''Unnamed:'' ''Name''" "\<not> contains ''Unnamed:'' ''First Name''"
  "\<not> contains ''Unnamed:'' ''Last Name''"
  by simp_all

lemma load_data_csv:
  "stored w p = Some (Csv df) \<Longrightarrow>
   load_data L p w = (case split_name (drop_columns (contains ''Unnamed:'') df) of
                        Inl e \<Rightarrow> empty_frame | Inr data \<Rightarrow> normalize L data)"
  by (simp add: load_data_def stored_def)













lemma required_in_normalize:
  "(c, d) \<in> set required_columns \<Longrightarrow> c \<in> set (columns (normalize L df))"
  by (force simp: set_columns_normalize)

lemma split_name_no_name:
  "''Name'' \<notin> set (columns data) \<Longrightarrow> split_name data = Inr data"
  by (simp add: split_name_def)



lemma isna_missing [simp]: "isna (missing d)"
  by (simp add: missing_def)











lemma load_data_no_name:
  assumes "stored w p = Some (Csv df)" and "''Name'' \<notin> set (columns df)"
  shows "load_data L p w = normalize L (drop_columns (contains ''Unnamed:'') df)"
  using assms by (simp add: load_data_csv split_name_no_name)



lemma stored_replace [simp]:
  "stored (w\<lparr>files := (files w)(default_path p \<mapsto> c)\<rparr>) p = Some c"
  by (simp add: stored_def)



lemma stored_holding [simp]: "stored (holding df) ''data.csv'' = Some (Csv df)"
  by (simp add: stored_def holding_def default_path_def)




section \<open>Updating a customer\<close>

lemma py_any_none:
  "\<forall>b \<in> set bs. b = Some False \<Longrightarrow> py_any bs = Inr False"
  by (induction bs) auto

lemma eq_id_cases: "eq_id v k = Some False \<or> eq_id v k = Some True \<or> v = NA"
  by (cases v) auto

text \<open>
  For a table that has a Customer ID column in which no value is the missing marker
  \<^verbatim>\<open>pd.NA\<close> and no value equals the given id, \<open>update_customer\<close> returns exactly
  \<^verbatim>\<open>No customer found with ID {id}\<close>, leaves the table as it was and does not touch the
  storage.
\<close>

theorem update_customer_not_found:
  assumes "''Customer ID'' \<in> set (columns data)"
    and "NA \<notin> set (column data ''Customer ID'')"
    and "\<not> has_id data customer_id"
  shows "update_customer L data customer_id updates file_path w
           = (Reply (''No customer found with ID '' @ str_int customer_id), data, w)"
proof -
  have "b = Some False" if "b \<in> set (customer_mask data customer_id)" for b
  proof -
    from that obtain v where v: "v \<in> set (column data ''Customer ID'')" "b = eq_id v customer_id"
      by (auto simp: customer_mask_def)
    with assms(2) have "v \<noteq> NA" by auto
    moreover from v assms(3) have "eq_id v customer_id \<noteq> Some True"
      by (auto simp: has_id_def list_ex_iff)
    ultimately show ?thesis using eq_id_cases [of v customer_id] v(2) by auto
  qed
  then have "py_any (customer_mask data customer_id) = Inr False"
    by (intro py_any_none) blast
  with assms(1) show ?thesis by (simp add: update_customer_def)
qed

lemma same_value_refl [simp]: "same_value v v"
  by (simp add: same_value_def)

lemma same_value_trans: "same_value u v \<Longrightarrow> same_value v w \<Longrightarrow> same_value u w"
  by (cases v) (auto simp: same_value_def)

lemma same_value_as_dtype [simp]: "same_value v (as_dtype d v)"
  by (cases d; cases v) (auto simp: same_value_def)

lemma nth_map_zip:
  "length ys = length xs \<Longrightarrow> i < length xs \<Longrightarrow> map f (zip xs ys) ! i = f (xs ! i, ys ! i)"
  by simp

lemma columns_retag [simp]:
  "map fst (map (\<lambda>(n, t). if n = key then (n, d') else (n, t)) xs) = map fst xs"
  by (induction xs) auto

lemma retag_other:
  "c \<noteq> key \<Longrightarrow> map_of (map (\<lambda>(n, t). if n = key then (n, d) else (n, t)) xs) c = map_of xs c"
  by (induction xs) auto

lemma retag_same:
  "key \<in> fst ` set xs \<Longrightarrow> map_of (map (\<lambda>(n, t). if n = key then (n, d) else (n, t)) xs) key = Some d"
  by (induction xs) auto

lemma loc_set_frame:
  assumes "loc_set L hits key v data = Inr data'" and "length hits = length (rows data)"
  shows "columns data' = columns data \<and> length (rows data') = length (rows data)
     \<and> (\<forall>i < length (rows data).
           (\<forall>c. c \<noteq> key \<longrightarrow> (rows data' ! i) c = (rows data ! i) c)
         \<and> (\<not> hits ! i \<longrightarrow> same_value ((rows data ! i) key) ((rows data' ! i) key))
         \<and> (\<not> hits ! i \<and> dtype_of data' key = dtype_of data key
               \<longrightarrow> (rows data' ! i) key = (rows data ! i) key)
         \<and> (hits ! i \<longrightarrow> same_value v ((rows data' ! i) key)))
     \<and> (\<forall>c. c \<noteq> key \<longrightarrow> dtype_of data' c = dtype_of data c)"
proof -
  from assms(1) obtain d d' where d: "dtype_of data key = Some d" "setitem_type L d v = Inr d'"
    and data': "data' = \<lparr> cols = map (\<lambda>(n, t). if n = key then (n, d') else (n, t)) (cols data),
                     rows = map (\<lambda>(r, hit). if hit then r(key := as_dtype d' v)
                                             else if d' = d then r
                                             else r(key := as_dtype d' (r key)))
                                (zip (rows data) hits) \<rparr>"
    by (auto simp: loc_set_def split: option.splits sum.splits)
  have c: "columns data' = columns data"
    unfolding data' columns_def by (simp only: frame.simps columns_retag)
  have n: "length (rows data') = length (rows data)" using assms(2) by (simp add: data')
  have r: "rows data' ! i = (if hits ! i then (rows data ! i)(key := as_dtype d' v)
                             else if d' = d then rows data ! i
                             else (rows data ! i)(key := as_dtype d' ((rows data ! i) key)))"
    if "i < length (rows data)" for i
    using that assms(2) by (simp add: data')
  have "key \<in> fst ` set (cols data)" using d(1) by (auto simp: dtype_of_def dest: map_of_SomeD intro: rev_image_eqI)
  then have t: "dtype_of data' key = Some d'"
    by (simp add: data' dtype_of_def retag_same)
  have o: "dtype_of data' c = dtype_of data c" if "c \<noteq> key" for c
    using that by (simp add: data' dtype_of_def retag_other)
  show ?thesis using c n r t o d(1) by simp
qed

lemma apply_updates_frame:
  assumes "apply_updates L hits us data = (e, data')" and "length hits = length (rows data)"
  shows "columns data' = columns data \<and> length (rows data') = length (rows data)
     \<and> (\<forall>i < length (rows data). \<forall>c.
           (c \<notin> fst ` set us \<or> c \<notin> set (columns data) \<longrightarrow> (rows data' ! i) c = (rows data ! i) c)
         \<and> (\<not> hits ! i \<longrightarrow> same_value ((rows data ! i) c) ((rows data' ! i) c)))
     \<and> (\<forall>c. c \<notin> fst ` set us \<or> c \<notin> set (columns data) \<longrightarrow> dtype_of data' c = dtype_of data c)"
  using assms
proof (induction us arbitrary: data)
  case Nil
  then show ?case by simp
next
  case (Cons u us)
  obtain key v where u: "u = (key, v)" by (cases u)
  show ?case
  proof (cases "key \<in> set (columns data)")
    case False
    with Cons.prems u have "apply_updates L hits us data = (e, data')" by simp
    from Cons.IH [OF this Cons.prems(2)] show ?thesis by (auto simp: u)
  next
    case True
    show ?thesis
    proof (cases "loc_set L hits key v data")
      case (Inl x)
      with True Cons.prems u show ?thesis by simp
    next
      case (Inr d1)
      note f = loc_set_frame [OF Inr Cons.prems(2)]
      from True Inr Cons.prems u have a: "apply_updates L hits us d1 = (e, data')" by simp
      from f Cons.prems(2) have l: "length hits = length (rows d1)" by simp
      note g = Cons.IH [OF a l]
      have cols: "columns data' = columns data" using f g by simp
      have len: "length (rows data') = length (rows data)" using f g by simp
      have cell: "(c \<notin> fst ` set (u # us) \<or> c \<notin> set (columns data)
                    \<longrightarrow> (rows data' ! i) c = (rows data ! i) c)
         \<and> (\<not> hits ! i \<longrightarrow> same_value ((rows data ! i) c) ((rows data' ! i) c))"
        if i: "i < length (rows data)" for i c
      proof -
        from i f have i1: "i < length (rows d1)" by simp
        from f i have f1: "c \<noteq> key \<longrightarrow> (rows d1 ! i) c = (rows data ! i) c"
          and f2: "\<not> hits ! i \<longrightarrow> same_value ((rows data ! i) key) ((rows d1 ! i) key)"
          by blast+
        from g i1 have g1: "c \<notin> fst ` set us \<or> c \<notin> set (columns d1)
                             \<longrightarrow> (rows data' ! i) c = (rows d1 ! i) c"
          and g2: "\<not> hits ! i \<longrightarrow> same_value ((rows d1 ! i) c) ((rows data' ! i) c)"
          by blast+
        have cd: "columns d1 = columns data" using f by simp
        have 1: "c \<notin> fst ` set (u # us) \<or> c \<notin> set (columns data)
                    \<longrightarrow> (rows data' ! i) c = (rows data ! i) c"
          using f1 g1 True cd by (auto simp: u)
        have 2: "same_value ((rows data ! i) c) ((rows data' ! i) c)" if h: "\<not> hits ! i"
        proof -
          have "same_value ((rows data ! i) c) ((rows d1 ! i) c)"
            using f1 f2 h by (cases "c = key") auto
          with g2 h show ?thesis by (blast intro: same_value_trans)
        qed
        from 1 2 show ?thesis by blast
      qed
      have ty: "dtype_of data' c = dtype_of data c"
        if "c \<notin> fst ` set (u # us) \<or> c \<notin> set (columns data)" for c
      proof -
        from that True have "c \<noteq> key" by (auto simp: u)
        with f have "dtype_of d1 c = dtype_of data c" by blast
        moreover from that f g have "dtype_of data' c = dtype_of d1 c" by (auto simp: u)
        ultimately show ?thesis by simp
      qed
      from cols len cell ty show ?thesis by blast
    qed
  qed
qed

lemma apply_updates_kept:
  assumes "apply_updates L hits us data = (e, data')" and "length hits = length (rows data)"
    and "distinct (map fst us)" and "i < length (rows data)" and "\<not> hits ! i"
    and "dtype_of data' c = dtype_of data c"
  shows "(rows data' ! i) c = (rows data ! i) c"
  using assms
proof (induction us arbitrary: data)
  case Nil
  then show ?case by simp
next
  case (Cons u us)
  obtain key v where u: "u = (key, v)" by (cases u)
  from Cons.prems(3) have dist: "distinct (map fst us)" and fresh: "key \<notin> fst ` set us"
    by (auto simp: u)
  show ?case
  proof (cases "key \<in> set (columns data)")
    case False
    with Cons.prems u have "apply_updates L hits us data = (e, data')" by simp
    from Cons.IH [OF this Cons.prems(2) dist Cons.prems(4,5,6)] show ?thesis .
  next
    case True
    show ?thesis
    proof (cases "loc_set L hits key v data")
      case (Inl x)
      with True Cons.prems u show ?thesis by simp
    next
      case (Inr d1)
      note f = loc_set_frame [OF Inr Cons.prems(2)]
      from True Inr Cons.prems u have a: "apply_updates L hits us d1 = (e, data')" by simp
      from f Cons.prems(2) have l: "length hits = length (rows d1)" by simp
      from f Cons.prems(4) have i1: "i < length (rows d1)" by simp
      note g = apply_updates_frame [OF a l]
      show ?thesis
      proof (cases "c = key")
        case True
        with fresh g i1 have "(rows data' ! i) c = (rows d1 ! i) c"
          and "dtype_of data' c = dtype_of d1 c" by blast+
        moreover from this(2) Cons.prems(6) True have "dtype_of d1 key = dtype_of data key" by simp
        with f Cons.prems(4,5) have "(rows d1 ! i) key = (rows data ! i) key" by blast
        ultimately show ?thesis using True by simp
      next
        case False
        with f Cons.prems(4) have 1: "(rows d1 ! i) c = (rows data ! i) c"
          and 2: "dtype_of d1 c = dtype_of data c" by blast+
        from Cons.prems(6) 2 have "dtype_of data' c = dtype_of d1 c" by simp
        from Cons.IH [OF a l dist i1 Cons.prems(5) this] 1 show ?thesis by simp
      qed
    qed
  qed
qed

lemma apply_updates_written:
  assumes "apply_updates L hits us data = (None, data')" and "length hits = length (rows data)"
    and "distinct (map fst us)" and "(c, v) \<in> set us" and "c \<in> set (columns data)"
    and "i < length (rows data)" and "hits ! i"
  shows "same_value v ((rows data' ! i) c)"
  using assms
proof (induction us arbitrary: data)
  case Nil
  then show ?case by simp
next
  case (Cons u us)
  obtain key v0 where u: "u = (key, v0)" by (cases u)
  show ?case
  proof (cases "key \<in> set (columns data)")
    case False
    with Cons.prems u have a: "apply_updates L hits us data = (None, data')" by simp
    from False Cons.prems(4,5) u have "(c, v) \<in> set us" by auto
    with Cons.IH [OF a Cons.prems(2)] Cons.prems show ?thesis by simp
  next
    case True
    show ?thesis
    proof (cases "loc_set L hits key v0 data")
      case (Inl x)
      with True Cons.prems u show ?thesis by simp
    next
      case (Inr d1)
      note f = loc_set_frame [OF Inr Cons.prems(2)]
      from True Inr Cons.prems u have a: "apply_updates L hits us d1 = (None, data')" by simp
      from f Cons.prems(2) have l: "length hits = length (rows d1)" by simp
      from f Cons.prems(6) have i1: "i < length (rows d1)" by simp
      have cd: "columns d1 = columns data" using f by simp
      show ?thesis
      proof (cases "(c, v) = (key, v0)")
        case True
        then have ck: "c = key" "v = v0" by simp_all
        from Cons.prems(3) u have "key \<notin> fst ` set us" by auto
        with apply_updates_frame [OF a l] i1 have "(rows data' ! i) key = (rows d1 ! i) key"
          by blast
        moreover from f Cons.prems(6,7) have "same_value v0 ((rows d1 ! i) key)" by blast
        ultimately show ?thesis by (simp add: ck)
      next
        case False
        with Cons.prems(4) u have "(c, v) \<in> set us" by auto
        moreover from Cons.prems(3) have "distinct (map fst us)" by simp
        ultimately show ?thesis
          using Cons.IH [OF a l] Cons.prems(5,7) i1 cd by simp
      qed
    qed
  qed
qed

lemma update_customer_cases:
  assumes "update_customer L data k us p w = (r, data', w')"
  shows "(data' = data \<and> w' = w
            \<and> r \<noteq> Reply (''Customer with ID '' @ str_int k @ '' updated successfully''))
       \<or> (\<exists>e. apply_updates L (map (\<lambda>b. b = Some True) (customer_mask data k)) us data = (e, data')
             \<and> (r = Reply (''Customer with ID '' @ str_int k @ '' updated successfully'')
                  \<longrightarrow> e = None \<and> w' = w\<lparr>files := (files w)(p \<mapsto> to_csv L data')\<rparr>))"
  using assms
  by (auto simp: update_customer_def save_data_def
      split: if_splits sum.splits bool.splits prod.splits option.splits)

text \<open>
  C8. Whatever \<open>update_customer\<close> returns, the table afterwards has the same columns and
  the same number of rows; a cell of a column that is not a key of \<open>updates\<close> (or a key
  that is not a column of the table) is unchanged in every row; a cell of a row whose
  Customer ID does not equal the id keeps its value, and is literally unchanged when its
  column keeps its dtype (when the dtype changes, pandas represents the same value in the
  new dtype: 2 becomes 2.0). When the update succeeds, every matching row holds the given
  value in every column named in \<open>updates\<close>, and the table is what was saved.
\<close>

theorem update_customer_frame:
  assumes "update_customer L data customer_id updates file_path w = (r, data', w')"
  shows "columns data' = columns data \<and> length (rows data') = length (rows data)
     \<and> (\<forall>i < length (rows data). \<forall>c.
           (c \<notin> fst ` set updates \<or> c \<notin> set (columns data)
              \<longrightarrow> (rows data' ! i) c = (rows data ! i) c)
         \<and> (\<not> matches data customer_id i
              \<longrightarrow> same_value ((rows data ! i) c) ((rows data' ! i) c))
         \<and> (\<not> matches data customer_id i \<and> distinct (map fst updates)
               \<and> dtype_of data' c = dtype_of data c
              \<longrightarrow> (rows data' ! i) c = (rows data ! i) c))
     \<and> (r = Reply (''Customer with ID '' @ str_int customer_id @ '' updated successfully'')
           \<and> distinct (map fst updates)
         \<longrightarrow> w' = w\<lparr>files := (files w)(file_path \<mapsto> to_csv L data')\<rparr>
           \<and> (\<forall>i < length (rows data). matches data customer_id i \<longrightarrow>
                (\<forall>(c, v) \<in> set updates. c \<in> set (columns data)
                    \<longrightarrow> same_value v ((rows data' ! i) c))))"
proof -
  let ?hits = "map (\<lambda>b. b = Some True) (customer_mask data customer_id)"
  have len: "length ?hits = length (rows data)" by (simp add: customer_mask_def)
  have hit: "?hits ! i = matches data customer_id i" if "i < length (rows data)" for i
    using that by (simp add: customer_mask_def matches_def column_def)
  from update_customer_cases [OF assms] show ?thesis
  proof (elim disjE exE conjE)
    assume "data' = data" "w' = w"
      "r \<noteq> Reply (''Customer with ID '' @ str_int customer_id @ '' updated successfully'')"
    then show ?thesis by simp
  next
    fix e
    assume a: "apply_updates L ?hits updates data = (e, data')"
      and s: "r = Reply (''Customer with ID '' @ str_int customer_id @ '' updated successfully'')
                  \<longrightarrow> e = None \<and> w' = w\<lparr>files := (files w)(file_path \<mapsto> to_csv L data')\<rparr>"
    note f = apply_updates_frame [OF a len]
    have 1: "columns data' = columns data" "length (rows data') = length (rows data)"
      using f by simp_all
    have 2: "(c \<notin> fst ` set updates \<or> c \<notin> set (columns data)
              \<longrightarrow> (rows data' ! i) c = (rows data ! i) c)
         \<and> (\<not> matches data customer_id i
              \<longrightarrow> same_value ((rows data ! i) c) ((rows data' ! i) c))
         \<and> (\<not> matches data customer_id i \<and> distinct (map fst updates)
               \<and> dtype_of data' c = dtype_of data c
              \<longrightarrow> (rows data' ! i) c = (rows data ! i) c)"
      if i: "i < length (rows data)" for i c
      using f i hit [OF i] apply_updates_kept [OF a len _ i, of c] by auto
    have 3: "w' = w\<lparr>files := (files w)(file_path \<mapsto> to_csv L data')\<rparr>
           \<and> (\<forall>i < length (rows data). matches data customer_id i \<longrightarrow>
                (\<forall>(c, v) \<in> set updates. c \<in> set (columns data)
                    \<longrightarrow> same_value v ((rows data' ! i) c)))"
      if "r = Reply (''Customer with ID '' @ str_int customer_id @ '' updated successfully'')"
        and d: "distinct (map fst updates)"
    proof -
      from that s have e: "e = None" and w: "w' = w\<lparr>files := (files w)(file_path \<mapsto> to_csv L data')\<rparr>"
        by simp_all
      have "same_value v ((rows data' ! i) c)"
        if "i < length (rows data)" "matches data customer_id i" "(c, v) \<in> set updates"
          "c \<in> set (columns data)" for i c v
        using apply_updates_written [OF a [unfolded e] len d that(3,4,1)] hit [OF that(1)] that(2)
        by simp
      with w show ?thesis by blast
    qed
    from 1 2 3 show ?thesis by blast
  qed
qed

theorem update_customer_not_found_witness:
  "''Customer ID'' \<in> set (columns two_customers)
   \<and> NA \<notin> set (column two_customers ''Customer ID'')
   \<and> \<not> has_id two_customers 5
   \<and> update_customer example_pandas two_customers 5 new_email ''data.csv'' no_files
        = (Reply ''No customer found with ID 5'', two_customers, no_files)"
proof -
  have 1: "''Customer ID'' \<in> set (columns two_customers)"
    by (simp add: columns_def two_customers_def required_columns_def)
  have c: "column two_customers ''Customer ID'' = [IntV 1, IntV 2]"
    by (simp add: column_def two_customers_def)
  have 2: "NA \<notin> set (column two_customers ''Customer ID'')" by (simp add: c)
  have 3: "\<not> has_id two_customers 5" by (simp add: has_id_def c)
  have 4: "str_int 5 = ''5''" by code_simp
  from update_customer_not_found [OF 1 2 3, of example_pandas new_email "''data.csv''" no_files]
  show ?thesis using 1 2 3 by (simp add: 4)
qed

text \<open>
  C7. The not-found message is not returned for every table: a file whose Customer ID
  values cannot be cast is loaded with a missing Customer ID, the comparison with the id
  then yields \<^verbatim>\<open>pd.NA\<close>, whose truth value \<^verbatim>\<open>any\<close> cannot take, and \<open>update_customer\<close>
  returns the text of that exception for an id that the table does not contain.
  \<open>delete_customer\<close> answers the same table with the not-found message.
\<close>

theorem update_customer_missing_id:
  "column (load_data example_pandas ''data.csv'' (holding bad_ids_file)) ''Customer ID'' = [NA]
   \<and> fst (update_customer example_pandas
             (load_data example_pandas ''data.csv'' (holding bad_ids_file)) 5 new_email
             ''data.csv'' (holding bad_ids_file))
       = Failure ''Error updating customer: '' TypeError"
proof -
  let ?T = "load_data example_pandas ''data.csv'' (holding bad_ids_file)"
  have c: "column ?T ''Customer ID'' = [NA]" by code_simp
  have "''Name'' \<notin> set (columns bad_ids_file)" by (simp add: columns_def bad_ids_file_def)
  then have "?T = normalize example_pandas (drop_columns (contains ''Unnamed:'') bad_ids_file)"
    by (intro load_data_no_name) simp_all
  moreover have "(''Customer ID'', Int64) \<in> set required_columns"
    by (simp add: required_columns_def)
  ultimately have m: "''Customer ID'' \<in> set (columns ?T)"
    by (simp add: required_in_normalize)
  show ?thesis using c m by (simp add: update_customer_def customer_mask_def)
qed

theorem update_customer_frame_witness:
  "fst (update_customer example_pandas two_customers 2 new_email ''data.csv'' no_files)
     = Reply ''Customer with ID 2 updated successfully''
   \<and> distinct (map fst new_email)
   \<and> \<not> matches two_customers 2 0 \<and> matches two_customers 2 1
   \<and> columns (fst (snd (update_customer example_pandas two_customers 2 new_email ''data.csv'' no_files)))
       = columns two_customers
   \<and> (rows (fst (snd (update_customer example_pandas two_customers 2 new_email ''data.csv'' no_files))) ! 1)
         ''First Name'' = StrV ''John''
   \<and> (rows (fst (snd (update_customer example_pandas two_customers 2 new_email ''data.csv'' no_files))) ! 0)
         ''Email'' = StrV ''jane@example.org''
   \<and> same_value (StrV ''new@example.org'')
         ((rows (fst (snd (update_customer example_pandas two_customers 2 new_email ''data.csv'' no_files))) ! 1)
            ''Email'')"
proof -
  let ?X = "update_customer example_pandas two_customers 2 new_email ''data.csv'' no_files"
  have X: "?X = (fst ?X, fst (snd ?X), snd (snd ?X))" by simp
  note t = update_customer_frame [OF X]
  have s5: "str_int 2 = ''2''" by code_simp
  have r: "fst ?X = Reply ''Customer with ID 2 updated successfully''" by code_simp
  then have r': "fst ?X = Reply (''Customer with ID '' @ str_int 2 @ '' updated successfully'')"
    by (simp add: s5)
  have d: "distinct (map fst new_email)" by (simp add: new_email_def)
  have m0: "\<not> matches two_customers 2 0" and m1: "matches two_customers 2 1"
    by (simp_all add: matches_def two_customers_def)
  have n: "0 < length (rows two_customers)" "1 < length (rows two_customers)"
    by (simp_all add: two_customers_def)
  have ty: "dtype_of (fst (snd ?X)) ''Email'' = dtype_of two_customers ''Email''" by code_simp
  have k: "''First Name'' \<notin> fst ` set new_email" by (simp add: new_email_def)
  have e: "(''Email'', StrV ''new@example.org'') \<in> set new_email" by (simp add: new_email_def)
  have ce: "''Email'' \<in> set (columns two_customers)"
    by (simp add: columns_def two_customers_def required_columns_def)
  note cells = t [THEN conjunct2, THEN conjunct2, THEN conjunct1]
  from t have c1: "columns (fst (snd ?X)) = columns two_customers" by (rule conjunct1)
  from cells [rule_format, OF n(2)] k
  have "(rows (fst (snd ?X)) ! 1) ''First Name'' = (rows two_customers ! 1) ''First Name''"
    by blast
  then have c2: "(rows (fst (snd ?X)) ! 1) ''First Name'' = StrV ''John''"
    by (simp add: two_customers_def)
  from cells [rule_format, OF n(1)] m0 d ty
  have "(rows (fst (snd ?X)) ! 0) ''Email'' = (rows two_customers ! 0) ''Email''"
    by blast
  then have c3: "(rows (fst (snd ?X)) ! 0) ''Email'' = StrV ''jane@example.org''"
    by (simp add: two_customers_def)
  note pos = t [THEN conjunct2, THEN conjunct2, THEN conjunct2, THEN mp, OF conjI [OF r' d],
      THEN conjunct2]
  from pos [rule_format, OF n(2) m1 e] ce
  have c4: "same_value (StrV ''new@example.org'') ((rows (fst (snd ?X)) ! 1) ''Email'')"
    by simp
  show ?thesis using r d m0 m1 c1 c2 c3 c4 by (intro conjI)
qed

section \<open>Searching\<close>












section \<open>Saving and loading again\<close>












lemma columns_read_back [simp]: "columns (read_back L df) = columns df"
  by (simp add: read_back_def columns_def comp_def)

lemma length_rows_read_back [simp]: "length (rows (read_back L df)) = length (rows df)"
  by (simp add: read_back_def)














lemma cast_Int64_int: "in_int64 i \<Longrightarrow> cast L Int64 (IntV i) = Some (IntV i)"
  by simp










end
